theory Spec2Isabelle
  imports Main "HOL-Library.Sublist"
begin

section \<open>Data model (types.ts)\<close>

text \<open>
  The interfaces of the repository become records. Record fields are global constants in
  HOL, so the fields that several interfaces share (\<open>id\<close>, \<open>title\<close>, \<open>url\<close>,
  \<open>source\<close>) carry a one-letter prefix of their interface: \<open>n_\<close> for NewsItem, \<open>g_\<close>
  for GroundingImage, \<open>p_\<close> for SavedProject. An optional field (\<open>source?: string\<close>) and
  a nullable one (\<open>GeneratedContent | null\<close>) are options. JavaScript strings are
  \<open>string\<close>; \<open>===\<close> on strings is equality.
\<close>

record NewsItem =
  n_id :: string
  n_title :: string
  n_snippet :: string
  n_source :: "string option"
  n_url :: "string option"
  n_publishedDate :: "string option"

record GeneratedContent =
  summaryEnglish :: string
  summaryBurmese :: string
  scriptBurmese :: string
  facebookPostBurmese :: string
  burmeseTitles :: "string list"
  visualPrompts :: "string list"
  imageQueries :: "string list"

record GroundingImage =
  g_url :: string
  g_title :: string
  g_source :: string

record SavedProject =
  p_id :: string
  newsItem :: NewsItem
  generatedContent :: "GeneratedContent option"
  savedAt :: string
  groundingImages :: "GroundingImage list"

section \<open>The news list (App, handleFetchNews)\<close>

text \<open>
  The state updater passed to \<open>setNews\<close>:
  \<^verbatim>\<open>
  prevNews => {
    const existingTitles = new Set(prevNews.map(n => n.title));
    const uniqueNewItems = items.filter(item => !existingTitles.has(item.title));
    return [...uniqueNewItems, ...prevNews];
  }
  \<close>
\<close>

definition existingTitles :: "NewsItem list \<Rightarrow> string set" where
  "existingTitles prevNews = set (map n_title prevNews)"

definition uniqueNewItems :: "NewsItem list \<Rightarrow> NewsItem list \<Rightarrow> NewsItem list" where
  "uniqueNewItems prevNews items =
     filter (\<lambda>item. \<not> (n_title item \<in> existingTitles prevNews)) items"

definition mergeNews :: "NewsItem list \<Rightarrow> NewsItem list \<Rightarrow> NewsItem list" where
  "mergeNews prevNews items = uniqueNewItems prevNews items @ prevNews"

text \<open>
  \<open>handleFetchNews\<close> awaits \<open>fetchPoliticalNews\<close>; when the promise resolves the
  updater runs, when it rejects the \<open>catch\<close> branch only sets the error message and the
  news list stays as it was. A fetch is therefore \<open>Some items\<close> (resolved) or \<open>None\<close>
  (rejected).
\<close>

definition handleFetchNews :: "NewsItem list option \<Rightarrow> NewsItem list \<Rightarrow> NewsItem list" where
  "handleFetchNews fetched news =
     (case fetched of Some items \<Rightarrow> mergeNews news items | None \<Rightarrow> news)"

text \<open>A session: the news list starts empty and every fetch goes through the handler.\<close>

fun session :: "NewsItem list option list \<Rightarrow> NewsItem list \<Rightarrow> NewsItem list" where
  "session [] news = news"
| "session (fetched # rest) news = session rest (handleFetchNews fetched news)"

definition news_item :: "string \<Rightarrow> string \<Rightarrow> NewsItem" where
  "news_item i t = \<lparr>n_id = i, n_title = t, n_snippet = [], n_source = None, n_url = None,
     n_publishedDate = None\<rparr>"

section \<open>The retry helper (geminiService, retryOperation)\<close>

text \<open>
  What the \<open>catch\<close> reads of a thrown value: \<open>error.message\<close> (tested with
  \<open>?.includes\<close>, so absent is allowed), \<open>error.status\<close> and \<open>error.response?.status\<close>
  (compared with \<open>=== 429\<close>; \<open>None\<close> stands for absent or not a number).
  \<open>s.includes(t)\<close> is "t is a contiguous part of s": \<open>sublist t s\<close>.
\<close>

record js_error =
  message :: "string option"
  status :: "int option"
  response_status :: "int option"

definition includes_str :: "string option \<Rightarrow> string \<Rightarrow> bool" where
  "includes_str m t = (case m of None \<Rightarrow> False | Some s \<Rightarrow> sublist t s)"

definition isRateLimit :: "js_error \<Rightarrow> bool" where
  "isRateLimit error \<longleftrightarrow>
     includes_str (message error) ''429'' \<or>
     includes_str (message error) ''Too Many Requests'' \<or>
     status error = Some 429 \<or>
     response_status error = Some 429"

definition Error :: "string \<Rightarrow> js_error" where
  "Error msg = \<lparr>message = Some msg, status = None, response_status = None\<rparr>"

text \<open>
  The wrapped operation is a thunk returning a promise; each call settles as resolved or
  rejected. Its behaviour is the outcome of its k-th call (counted from 0), for every k:
  the wrapper calls it once per loop iteration, so iteration \<open>i\<close> sees call \<open>i\<close>.
\<close>

datatype 'a outcome = Resolved 'a | Rejected js_error

text \<open>
  \<^verbatim>\<open>
  for (let i = 0; i < retries; i++) {
    try { return await operation(); }
    catch (error) {
      const isRateLimit = ...;
      if (isRateLimit && i < retries - 1) { ...wait...; continue; }
      throw error;
    }
  }
  throw new Error("Max retries exceeded");
  \<close>
  The result is the value returned (\<open>Inr\<close>) or the error thrown (\<open>Inl\<close>), together with the
  number of calls of the operation that were made. The wait between two attempts
  (\<open>baseDelay * 2^i\<close> plus a random jitter) changes neither and is left out.
\<close>

function retryLoop :: "(nat \<Rightarrow> 'a outcome) \<Rightarrow> int \<Rightarrow> nat \<Rightarrow> (js_error + 'a) \<times> nat" where
  "retryLoop operation retries i =
     (if int i < retries then
        (case operation i of
           Resolved v \<Rightarrow> (Inr v, Suc i)
         | Rejected error \<Rightarrow>
             if isRateLimit error \<and> int i < retries - 1
             then retryLoop operation retries (Suc i)
             else (Inl error, Suc i))
      else (Inl (Error ''Max retries exceeded''), i))"
  by pat_completeness auto
termination
  by (relation "measure (\<lambda>(operation, retries, i). nat (retries - int i))") auto

declare retryLoop.simps [simp del]

definition retryOperation :: "(nat \<Rightarrow> 'a outcome) \<Rightarrow> int \<Rightarrow> (js_error + 'a) \<times> nat" where
  "retryOperation operation retries = retryLoop operation retries 0"

text \<open>The default of the parameter \<open>retries\<close>; no caller in the repository passes another.\<close>

definition default_retries :: int where
  "default_retries = 3"

text \<open>An attempt that was rejected with an error the helper takes for a rate limit.\<close>

definition rateLimited :: "'a outcome \<Rightarrow> bool" where
  "rateLimited out = (case out of Resolved _ \<Rightarrow> False | Rejected e \<Rightarrow> isRateLimit e)"

section \<open>Image search (geminiService, searchRelatedImages)\<close>












text \<open>
  \<open>a.findIndex(p)\<close>: the index of the first element satisfying \<open>p\<close>, or -1.
  \<open>a.filter((v, i, a) => f(v, i, a))\<close>: the elements at the indices, in increasing order,
  where the callback holds.
\<close>

fun findIndex :: "('a \<Rightarrow> bool) \<Rightarrow> 'a list \<Rightarrow> int" where
  "findIndex p [] = - 1"
| "findIndex p (x # xs) =
     (if p x then 0 else (let r = findIndex p xs in if r < 0 then - 1 else r + 1))"

definition filter_indexed :: "('a \<Rightarrow> nat \<Rightarrow> 'a list \<Rightarrow> bool) \<Rightarrow> 'a list \<Rightarrow> 'a list" where
  "filter_indexed f a = map (\<lambda>i. a ! i) (filter (\<lambda>i. f (a ! i) i a) [0..<length a])"

text \<open>\<open>images.filter((v,i,a) => a.findIndex(v2 => v2.url === v.url) === i)\<close>\<close>

definition uniqueImages :: "GroundingImage list \<Rightarrow> GroundingImage list" where
  "uniqueImages imgs =
     filter_indexed (\<lambda>v i a. findIndex (\<lambda>v2. g_url v2 = g_url v) a = int i) imgs"





section \<open>The saved-projects collection (App)\<close>

text \<open>
  The updater of \<open>handleProjectSave\<close>:
  \<^verbatim>\<open>
  prev => {
    const exists = prev.findIndex(p => p.id === project.id);
    if (exists >= 0) { const updated = [...prev]; updated[exists] = project; return updated; }
    return [project, ...prev];
  }
  \<close>
\<close>

definition handleProjectSave :: "SavedProject \<Rightarrow> SavedProject list \<Rightarrow> SavedProject list" where
  "handleProjectSave project prev =
     (let exists = findIndex (\<lambda>p. p_id p = p_id project) prev in
      if exists \<ge> 0 then prev[nat exists := project] else project # prev)"

text \<open>
  \<open>deleteProject\<close> asks \<open>confirm(...)\<close> and filters only when the user agrees; the answer
  is the parameter \<open>confirmed\<close>.
\<close>

definition deleteProject :: "string \<Rightarrow> bool \<Rightarrow> SavedProject list \<Rightarrow> SavedProject list" where
  "deleteProject i confirmed prev =
     (if confirmed then filter (\<lambda>p. p_id p \<noteq> i) prev else prev)"

text \<open>
  What \<open>JSON.parse\<close> returns, as far as the handlers look at it: an array (read as
  \<open>SavedProject[]\<close> by the cast of the source) or any other value. \<open>JSON.parse\<close> and
  \<open>JSON.stringify\<close> belong to the platform and are parameters: \<open>JSON_parse text\<close> is
  \<open>None\<close> when parsing throws.
\<close>

datatype json = JArray "SavedProject list" | JOther

definition isArray :: "json \<Rightarrow> bool" where
  "isArray j = (case j of JArray _ \<Rightarrow> True | JOther \<Rightarrow> False)"

text \<open>The decimal digits of a number, as a template literal renders it.\<close>

function show_nat :: "nat \<Rightarrow> string" where
  "show_nat n =
     (if n < 10 then [char_of (48 + n)]
      else show_nat (n div 10) @ [char_of (48 + n mod 10)])"
  by pat_completeness auto
termination
  by (relation "measure (\<lambda>n. n)") auto

declare show_nat.simps [simp del]

text \<open>
  \<open>handleGlobalImport\<close>: \<open>file\<close> is the text of the chosen file (\<open>None\<close>: no file chosen).
  The result is the collection after the handler and the message it alerts, if any.
  \<^verbatim>\<open>
  const json = JSON.parse(event.target?.result as string);
  if (Array.isArray(json)) {
    setSavedProjects(prev => {
      const newItems = (json as SavedProject[]).filter(j => !prev.some(p => p.id === j.id));
      return [...newItems, ...prev];
    });
    alert(`Imported ${json.length} projects.`);
  } else { alert("Invalid JSON format. Expected an array of projects."); }
  \<close>
\<close>

definition newItems :: "SavedProject list \<Rightarrow> SavedProject list \<Rightarrow> SavedProject list" where
  "newItems prev js = filter (\<lambda>j. \<not> list_ex (\<lambda>p. p_id p = p_id j) prev) js"

definition handleGlobalImport ::
  "(string \<Rightarrow> json option) \<Rightarrow> string option \<Rightarrow> SavedProject list
     \<Rightarrow> SavedProject list \<times> string option"
where
  "handleGlobalImport JSON_parse file prev =
     (case file of
        None \<Rightarrow> (prev, None)
      | Some text \<Rightarrow>
          (case JSON_parse text of
             None \<Rightarrow> (prev, Some ''Failed to parse JSON file.'')
           | Some j \<Rightarrow>
               (case j of
                  JArray js \<Rightarrow>
                    (newItems prev js @ prev,
                     Some (''Imported '' @ show_nat (length js) @ '' projects.''))
                | JOther \<Rightarrow>
                    (prev, Some ''Invalid JSON format. Expected an array of projects.''))))"

subsection \<open>Persistence\<close>

text \<open>
  Local storage maps keys to strings. The state is initialised by
  \<open>local ? JSON.parse(local) : []\<close> with \<open>local = localStorage.getItem('policast_saved')\<close>
  (an empty string is falsy), and an effect writes
  \<open>JSON.stringify(savedProjects)\<close> under the same key whenever the collection changes.
  A \<open>JSON.parse\<close> that throws makes the initialiser throw.
\<close>

type_synonym localStorage = "string \<rightharpoonup> string"

definition initSavedProjects :: "(string \<Rightarrow> json option) \<Rightarrow> localStorage \<Rightarrow> js_error + json" where
  "initSavedProjects JSON_parse ls =
     (case ls ''policast_saved'' of
        None \<Rightarrow> Inr (JArray [])
      | Some local \<Rightarrow>
          if local = [] then Inr (JArray [])
          else (case JSON_parse local of
                  None \<Rightarrow> Inl (Error ''SyntaxError'')
                | Some v \<Rightarrow> Inr v))"

definition syncStorage :: "(json \<Rightarrow> string) \<Rightarrow> SavedProject list \<Rightarrow> localStorage \<Rightarrow> localStorage" where
  "syncStorage JSON_stringify savedProjects ls =
     ls(''policast_saved'' \<mapsto> JSON_stringify (JArray savedProjects))"

section \<open>The detail view (DetailView, handleGenerate and handleLocalSave)\<close>

text \<open>
  The component's state, and the clock it reads: \<open>Date.now()\<close> for a fresh project id
  and \<open>new Date().toISOString()\<close> for the save time. The property \<open>onSave\<close> is bound to
  \<open>handleProjectSave\<close> by the App, so \<open>onSave(project)\<close> is the updater above applied to
  the collection. The two services are parameters: each returns its value (\<open>Inr\<close>) or
  throws (\<open>Inl\<close>).
\<close>

record detail_state =
  d_content :: "GeneratedContent option"
  d_groundingImages :: "GroundingImage list"
  d_error :: "string option"
  d_loading :: bool

record clock =
  now :: nat
  toISOString :: string

text \<open>\<open>existingProject?.id || `proj-${Date.now()}`\<close>\<close>

definition project_id :: "SavedProject option \<Rightarrow> clock \<Rightarrow> string" where
  "project_id existingProject clk =
     (case existingProject of
        None \<Rightarrow> ''proj-'' @ show_nat (now clk)
      | Some p \<Rightarrow> if p_id p \<noteq> [] then p_id p else ''proj-'' @ show_nat (now clk))"

definition handleGenerate ::
  "(NewsItem \<Rightarrow> js_error + GeneratedContent) \<Rightarrow> (string list \<Rightarrow> js_error + GroundingImage list)
     \<Rightarrow> clock \<Rightarrow> NewsItem \<Rightarrow> SavedProject option
     \<Rightarrow> detail_state \<times> SavedProject list \<Rightarrow> detail_state \<times> SavedProject list"
where
  "handleGenerate generateContentKit searchImages clk item existingProject s =
     (let failed = (fst s)\<lparr>d_error := Some ''Failed to generate content. Please try again.'',
                            d_loading := False\<rparr>
      in case generateContentKit item of
           Inl err \<Rightarrow> (failed, snd s)
         | Inr generated \<Rightarrow>
             (case (if length (imageQueries generated) > 0
                    then searchImages (imageQueries generated) else Inr []) of
                Inl err \<Rightarrow> (failed, snd s)
              | Inr imgs \<Rightarrow>
                  ((fst s)\<lparr>d_content := Some generated, d_groundingImages := imgs,
                           d_error := None, d_loading := False\<rparr>,
                   handleProjectSave
                     \<lparr>p_id = project_id existingProject clk, newsItem = item,
                      generatedContent = Some generated, savedAt = toISOString clk,
                      groundingImages = imgs\<rparr>
                     (snd s))))"

definition handleLocalSave ::
  "clock \<Rightarrow> NewsItem \<Rightarrow> SavedProject option
     \<Rightarrow> detail_state \<times> SavedProject list \<Rightarrow> detail_state \<times> SavedProject list"
where
  "handleLocalSave clk item existingProject s =
     (case d_content (fst s) of
        None \<Rightarrow> s
      | Some content \<Rightarrow>
          (fst s,
           handleProjectSave
             \<lparr>p_id = project_id existingProject clk, newsItem = item,
              generatedContent = Some content, savedAt = toISOString clk,
              groundingImages = d_groundingImages (fst s)\<rparr>
             (snd s)))"

section \<open>Sample data\<close>


definition sample_project :: "string \<Rightarrow> string \<Rightarrow> SavedProject" where
  "sample_project i t =
     \<lparr>p_id = i, newsItem = news_item ''news-1-0'' ''A'', generatedContent = None,
      savedAt = t, groundingImages = []\<rparr>"

definition sample_content :: GeneratedContent where
  "sample_content =
     \<lparr>summaryEnglish = ''S'', summaryBurmese = ''B'', scriptBurmese = ''[Show map] text'',
      facebookPostBurmese = ''F'', burmeseTitles = [''T1''], visualPrompts = [''V1''],
      imageQueries = [''election'']\<rparr>"

definition initial_detail :: detail_state where
  "initial_detail =
     \<lparr>d_content = None, d_groundingImages = [], d_error = None, d_loading = False\<rparr>"




section \<open>Properties of the news list\<close>

lemma mergeNews_suffix: "suffix prevNews (mergeNews prevNews items)"
  by (simp add: mergeNews_def suffix_def)

lemma uniqueNewItems_titles:
  "set (map n_title (uniqueNewItems prevNews items)) =
     set (map n_title items) - set (map n_title prevNews)"
  by (auto simp: uniqueNewItems_def existingTitles_def)

lemma mergeNews_distinct:
  assumes "distinct (map n_title prevNews)" and "distinct (map n_title items)"
  shows "distinct (map n_title (mergeNews prevNews items))"
proof -
  have "distinct (map n_title (uniqueNewItems prevNews items))"
    using assms(2) unfolding uniqueNewItems_def by (rule distinct_map_filter)
  moreover have "set (map n_title (uniqueNewItems prevNews items)) \<inter> set (map n_title prevNews) = {}"
    unfolding uniqueNewItems_titles by blast
  ultimately show ?thesis
    using assms(1) by (simp add: mergeNews_def)
qed

text \<open>
  C4. As stated: merging a fetched batch into the news list yields the previously unseen
  entries appended to the list. The code puts them in front (its comment: "Prepend new
  items"), so the claim fails where it says "appended": with \<open>a\<close> in the list and \<open>b\<close>
  fetched, the list becomes \<open>[b, a]\<close>, not \<open>[a, b]\<close>.
\<close>

theorem mergeNews_appended_counterexample:
  "mergeNews [news_item ''news-1-0'' ''A''] [news_item ''news-2-0'' ''B'']
     = [news_item ''news-2-0'' ''B'', news_item ''news-1-0'' ''A'']
   \<and> mergeNews [news_item ''news-1-0'' ''A''] [news_item ''news-2-0'' ''B'']
     \<noteq> [news_item ''news-1-0'' ''A''] @ [news_item ''news-2-0'' ''B'']"
  by (simp add: mergeNews_def uniqueNewItems_def existingTitles_def news_item_def)

text \<open>
  C4, amended. For every news list and every fetched batch, the merged list is the
  entries of the batch whose titles were not already present, in batch order, followed by
  the previous list: every previously present entry is unchanged and in its original
  order, and the new entries stand before them.
\<close>

theorem mergeNews_prepends:
  "mergeNews prevNews items
     = filter (\<lambda>i. n_title i \<notin> n_title ` set prevNews) items @ prevNews
   \<and> drop (length (mergeNews prevNews items) - length prevNews) (mergeNews prevNews items)
     = prevNews"
  by (simp add: mergeNews_def uniqueNewItems_def existingTitles_def)

text \<open>
  C5. The news list is claimed to hold no two items with equal titles after any sequence
  of fetches, also when a batch repeats a title. The handler filters a batch only against
  the titles already in the list, never against the batch itself: the first fetch of a
  session, returning two items with the title \<open>A\<close>, leaves both in the list.
\<close>

theorem session_repeated_title_in_batch:
  "session [Some [news_item ''news-1-0'' ''A'', news_item ''news-1-1'' ''A'']] []
     = [news_item ''news-1-0'' ''A'', news_item ''news-1-1'' ''A'']
   \<and> \<not> distinct (map n_title
         (session [Some [news_item ''news-1-0'' ''A'', news_item ''news-1-1'' ''A'']] []))"
  by (simp add: handleFetchNews_def mergeNews_def uniqueNewItems_def existingTitles_def news_item_def)

lemma handleFetchNews_distinct:
  assumes "distinct (map n_title news)"
    and "\<And>items. fetched = Some items \<Longrightarrow> distinct (map n_title items)"
  shows "distinct (map n_title (handleFetchNews fetched news))"
  using assms by (cases fetched) (simp_all add: handleFetchNews_def mergeNews_distinct)

lemma session_distinct_batches:
  assumes "distinct (map n_title news)"
    and "\<And>items. Some items \<in> set fetches \<Longrightarrow> distinct (map n_title items)"
  shows "distinct (map n_title (session fetches news))"
  using assms
proof (induction fetches arbitrary: news)
  case Nil
  then show ?case by simp
next
  case (Cons fetched rest)
  have "distinct (map n_title (handleFetchNews fetched news))"
    using Cons.prems by (intro handleFetchNews_distinct) simp_all
  then show ?case
    using Cons.prems(2) by (simp add: Cons.IH)
qed

section \<open>Properties of the retry helper\<close>

lemma retryLoop_skip:
  assumes "int k < retries"
    and "\<forall>j. i \<le> j \<and> j < k \<longrightarrow> rateLimited (operation j)"
    and "i \<le> k"
  shows "retryLoop operation retries i = retryLoop operation retries k"
  using assms(3,2)
proof (induction "k - i" arbitrary: i)
  case 0
  then show ?case by simp
next
  case (Suc d)
  then have lt: "i < k" by simp
  with Suc.prems have "rateLimited (operation i)" by simp
  then obtain e where e: "operation i = Rejected e" "isRateLimit e"
    by (auto simp: rateLimited_def split: outcome.splits)
  from lt assms(1) have "int i < retries - 1" by simp
  with e have "retryLoop operation retries i = retryLoop operation retries (Suc i)"
    by (subst retryLoop.simps) simp
  also have "\<dots> = retryLoop operation retries k"
    using Suc.hyps(1)[of "Suc i"] Suc.hyps(2) Suc.prems lt by simp
  finally show ?case .
qed

lemma retryLoop_resolved:
  "int k < retries \<Longrightarrow> operation k = Resolved v
     \<Longrightarrow> retryLoop operation retries k = (Inr v, Suc k)"
  by (subst retryLoop.simps) simp

lemma retryLoop_rejected_other:
  "int k < retries \<Longrightarrow> operation k = Rejected e \<Longrightarrow> \<not> isRateLimit e
     \<Longrightarrow> retryLoop operation retries k = (Inl e, Suc k)"
  by (subst retryLoop.simps) simp

lemma retryLoop_rejected_last:
  "int k = retries - 1 \<Longrightarrow> operation k = Rejected e
     \<Longrightarrow> retryLoop operation retries k = (Inl e, Suc k)"
  by (subst retryLoop.simps) simp

lemma retryLoop_no_attempt:
  "retries \<le> int k
     \<Longrightarrow> retryLoop operation retries k = (Inl (Error ''Max retries exceeded''), k)"
  by (subst retryLoop.simps) simp

lemma isRateLimit_message_429: "isRateLimit (Error ''got 429 Too Many Requests'')"
  by code_simp

lemma isRateLimit_status_429:
  "isRateLimit \<lparr>message = Some ''quota'', status = Some 429, response_status = None\<rparr>"
  by (simp add: isRateLimit_def)

lemma not_isRateLimit_boom: "\<not> isRateLimit (Error ''boom'')"
  by code_simp

text \<open>
  C2. For every wrapped operation and every retry count: when the attempts before
  attempt \<open>k\<close> all failed with a rate-limit error and attempt \<open>k\<close>, still within the retry
  count, succeeds, the wrapper returns that success (after \<open>k + 1\<close> calls); when attempt
  \<open>k\<close> fails with an error that is not a rate-limit error, that error is thrown at once,
  the operation having been called \<open>k + 1\<close> times and never again.
\<close>

theorem retryOperation_contract:
  assumes "int k < retries" and "\<forall>j<k. rateLimited (operation j)"
  shows "(\<forall>v. operation k = Resolved v \<longrightarrow>
              retryOperation operation retries = (Inr v, Suc k)) \<and>
         (\<forall>e. operation k = Rejected e \<and> \<not> isRateLimit e \<longrightarrow>
              retryOperation operation retries = (Inl e, Suc k))"
proof -
  have "retryOperation operation retries = retryLoop operation retries k"
    unfolding retryOperation_def using assms by (intro retryLoop_skip) auto
  then show ?thesis
    using assms(1) by (auto simp: retryLoop_resolved retryLoop_rejected_other)
qed

theorem retryOperation_contract_witness:
  "retryOperation
     (\<lambda>k. if k = 0 then Rejected (Error ''got 429 Too Many Requests'') else Resolved (7::nat))
     default_retries = (Inr 7, 2)
   \<and> retryOperation
     (\<lambda>k. if k = 0 then Rejected (Error ''got 429 Too Many Requests'')
           else (Rejected (Error ''boom'') :: nat outcome))
     default_retries = (Inl (Error ''boom''), 2)"
  using
    retryOperation_contract [of 1 default_retries
      "\<lambda>k. if k = 0 then Rejected (Error ''got 429 Too Many Requests'') else Resolved (7::nat)"]
    retryOperation_contract [of 1 default_retries
      "\<lambda>k. if k = 0 then Rejected (Error ''got 429 Too Many Requests'')
            else (Rejected (Error ''boom'') :: nat outcome)"]
  by (simp add: rateLimited_def isRateLimit_message_429 not_isRateLimit_boom default_retries_def)

text \<open>
  C3. As stated: when every attempt fails with a rate-limit error, the wrapper fails with
  the generic error "Max retries exceeded". It does not: on the last attempt the test
  \<open>i < retries - 1\<close> is false, so \<open>throw error\<close> rethrows the error of the operation.
  With the default three attempts, all rejected with status 429:
\<close>

theorem retryOperation_exhausted_counterexample:
  "retryOperation
     (\<lambda>k. Rejected \<lparr>message = Some ''quota'', status = Some 429, response_status = None\<rparr>
           :: nat outcome)
     default_retries
     = (Inl \<lparr>message = Some ''quota'', status = Some 429, response_status = None\<rparr>, 3)
   \<and> fst (retryOperation
     (\<lambda>k. Rejected \<lparr>message = Some ''quota'', status = Some 429, response_status = None\<rparr>
           :: nat outcome)
     default_retries) \<noteq> Inl (Error ''Max retries exceeded'')"
proof -
  let ?e = "\<lparr>message = Some ''quota'', status = Some 429, response_status = None\<rparr>"
  let ?op = "\<lambda>k::nat. Rejected ?e :: nat outcome"
  have "retryLoop ?op 3 0 = retryLoop ?op 3 2"
    by (rule retryLoop_skip) (simp_all add: rateLimited_def isRateLimit_status_429)
  also have "\<dots> = (Inl ?e, 3)"
    by (subst retryLoop.simps) simp
  finally show ?thesis
    by (simp add: retryOperation_def default_retries_def Error_def)
qed

text \<open>
  C3, amended. For every wrapped operation whose attempts all fail with a rate-limit
  error and every retry count of at least one, the wrapper makes exactly that many
  attempts and then fails with the error of the last attempt. The generic error
  "Max retries exceeded" is thrown only when the retry count is zero or less, where the
  operation is never called.
\<close>

theorem retryOperation_exhausted:
  "(1 \<le> retries \<and> (\<forall>j. int j < retries \<longrightarrow> rateLimited (operation j)) \<longrightarrow>
      (\<exists>e. operation (nat retries - 1) = Rejected e \<and> isRateLimit e \<and>
           retryOperation operation retries = (Inl e, nat retries))) \<and>
   (retries \<le> 0 \<longrightarrow>
      retryOperation operation retries = (Inl (Error ''Max retries exceeded''), 0))"
proof (intro conjI impI)
  assume a: "1 \<le> retries \<and> (\<forall>j. int j < retries \<longrightarrow> rateLimited (operation j))"
  define k where "k = nat retries - 1"
  from a have "1 \<le> retries" by simp
  then have k: "int k = retries - 1" unfolding k_def by arith
  then have "rateLimited (operation k)" using a by simp
  then obtain e where e: "operation k = Rejected e" "isRateLimit e"
    by (auto simp: rateLimited_def split: outcome.splits)
  have "retryOperation operation retries = retryLoop operation retries k"
    unfolding retryOperation_def using a k by (intro retryLoop_skip) auto
  also have "\<dots> = (Inl e, Suc k)"
    using k e(1) by (rule retryLoop_rejected_last)
  also have "Suc k = nat retries"
    using \<open>1 \<le> retries\<close> unfolding k_def by arith
  finally have "retryOperation operation retries = (Inl e, nat retries)" .
  with e show "\<exists>e. operation (nat retries - 1) = Rejected e \<and> isRateLimit e \<and>
      retryOperation operation retries = (Inl e, nat retries)"
    by (auto simp: k_def)
next
  assume "retries \<le> 0"
  then show "retryOperation operation retries = (Inl (Error ''Max retries exceeded''), 0)"
    by (simp add: retryOperation_def retryLoop_no_attempt)
qed

theorem retryOperation_exhausted_witness:
  "retryOperation (\<lambda>k. Rejected (Error ''got 429 Too Many Requests'') :: nat outcome) 3
     = (Inl (Error ''got 429 Too Many Requests''), 3)
   \<and> retryOperation (\<lambda>k. Rejected (Error ''got 429 Too Many Requests'') :: nat outcome) 0
     = (Inl (Error ''Max retries exceeded''), 0)"
  using
    retryOperation_exhausted [of 3 "\<lambda>k. Rejected (Error ''got 429 Too Many Requests'') :: nat outcome"]
    retryOperation_exhausted [of 0 "\<lambda>k. Rejected (Error ''got 429 Too Many Requests'') :: nat outcome"]
  by (simp add: rateLimited_def isRateLimit_message_429)

section \<open>Array helpers: findIndex and filter with index\<close>

lemma findIndex_bounds: "- 1 \<le> findIndex p xs \<and> findIndex p xs < int (length xs)"
  by (induction xs) (auto simp: Let_def)

lemma findIndex_Cons_Suc:
  "\<not> p x \<Longrightarrow> findIndex p (x # xs) = int i \<Longrightarrow> \<exists>r. i = Suc r \<and> findIndex p xs = int r"
proof -
  assume a: "\<not> p x" "findIndex p (x # xs) = int i"
  then have nn: "\<not> findIndex p xs < 0" and eq: "findIndex p xs + 1 = int i"
    by (auto simp: Let_def split: if_splits)
  then have "findIndex p xs = int (i - 1)" and "i = Suc (i - 1)" by arith+
  then show ?thesis by blast
qed

lemma findIndex_first:
  "findIndex p xs = int i \<Longrightarrow> i < length xs \<and> p (xs ! i) \<and> (\<forall>j<i. \<not> p (xs ! j))"
proof (induction xs arbitrary: i)
  case Nil
  then show ?case by simp
next
  case (Cons x xs)
  show ?case
  proof (cases "p x")
    case True
    with Cons.prems show ?thesis by simp
  next
    case False
    from findIndex_Cons_Suc[OF False Cons.prems]
    obtain r where r: "i = Suc r" "findIndex p xs = int r" by blast
    from Cons.IH[OF r(2)] False r(1) show ?thesis
      by (auto simp: nth_Cons split: nat.splits)
  qed
qed




lemma findIndex_neg_iff: "findIndex p xs < 0 \<longleftrightarrow> (\<forall>x\<in>set xs. \<not> p x)"
proof (induction xs)
  case Nil
  show ?case by simp
next
  case (Cons x xs)
  then show ?case
    using findIndex_bounds[of p xs] by (auto simp: Let_def)
qed









lemma set_filter_indexed:
  "set (filter_indexed f a) = {a ! i | i. i < length a \<and> f (a ! i) i a}"
  unfolding filter_indexed_def by auto



lemma set_uniqueImages_urls: "g_url ` set (uniqueImages imgs) = g_url ` set imgs"
proof
  show "g_url ` set (uniqueImages imgs) \<subseteq> g_url ` set imgs"
    unfolding uniqueImages_def set_filter_indexed by auto
  show "g_url ` set imgs \<subseteq> g_url ` set (uniqueImages imgs)"
  proof
    fix u assume "u \<in> g_url ` set imgs"
    then have "\<not> findIndex (\<lambda>v2. g_url v2 = u) imgs < 0"
      by (auto simp: findIndex_neg_iff)
    then obtain i where i: "findIndex (\<lambda>v2. g_url v2 = u) imgs = int i"
      using nat_0_le[of "findIndex (\<lambda>v2. g_url v2 = u) imgs"] by (metis not_le)
    from findIndex_first[OF i] have "i < length imgs" "g_url (imgs ! i) = u" by simp_all
    with i have "imgs ! i \<in> set (uniqueImages imgs)"
      unfolding uniqueImages_def set_filter_indexed by blast
    with \<open>g_url (imgs ! i) = u\<close> show "u \<in> g_url ` set (uniqueImages imgs)" by blast
  qed
qed



section \<open>Properties of the image search\<close>









section \<open>Properties of the saved-projects collection\<close>

lemma handleProjectSave_new:
  assumes "p_id project \<notin> p_id ` set prev"
  shows "handleProjectSave project prev = project # prev"
proof -
  from assms have "findIndex (\<lambda>p. p_id p = p_id project) prev < 0"
    unfolding findIndex_neg_iff by (metis imageI)
  then show ?thesis by (simp add: handleProjectSave_def)
qed

lemma handleProjectSave_existing:
  assumes "p_id project \<in> p_id ` set prev"
  shows "\<exists>i<length prev. p_id (prev ! i) = p_id project \<and> (\<forall>j<i. p_id (prev ! j) \<noteq> p_id project)
           \<and> handleProjectSave project prev = prev[i := project]"
proof -
  let ?r = "findIndex (\<lambda>p. p_id p = p_id project) prev"
  from assms have nn: "0 \<le> ?r"
    using findIndex_neg_iff[of "\<lambda>p. p_id p = p_id project" prev] by fastforce
  then have r: "?r = int (nat ?r)" by simp
  from findIndex_first[OF r] nn show ?thesis
    by (auto simp: handleProjectSave_def Let_def)
qed

lemma handleProjectSave_ids:
  "map p_id (handleProjectSave project prev) =
     (if p_id project \<in> p_id ` set prev then map p_id prev else p_id project # map p_id prev)"
proof (cases "p_id project \<in> p_id ` set prev")
  case True
  from handleProjectSave_existing[OF True] obtain i where
    i: "i < length prev" "p_id (prev ! i) = p_id project" "handleProjectSave project prev = prev[i := project]"
    by blast
  have "map p_id (prev[i := project]) = (map p_id prev)[i := p_id (prev ! i)]"
    by (simp add: map_update i(2))
  also have "\<dots> = map p_id prev"
    using i(1) by (metis list_update_id nth_map)
  finally show ?thesis using True i(3) by simp
next
  case False
  then show ?thesis by (simp add: handleProjectSave_new)
qed

lemma handleProjectSave_distinct:
  "distinct (map p_id prev) \<Longrightarrow> distinct (map p_id (handleProjectSave project prev))"
  unfolding handleProjectSave_ids by auto

lemma handleProjectSave_in_place:
  assumes "distinct (map p_id prev)" and "p_id project \<in> p_id ` set prev"
  shows "handleProjectSave project prev = map (\<lambda>q. if p_id q = p_id project then project else q) prev"
proof -
  from handleProjectSave_existing[OF assms(2)] obtain i where
    i: "i < length prev" "p_id (prev ! i) = p_id project" "handleProjectSave project prev = prev[i := project]"
    by blast
  have "prev[i := project] = map (\<lambda>q. if p_id q = p_id project then project else q) prev"
  proof (rule nth_equalityI)
    show "length (prev[i := project]) = length (map (\<lambda>q. if p_id q = p_id project then project else q) prev)"
      by simp
    fix j assume "j < length (prev[i := project])"
    then have j: "j < length prev" by simp
    show "prev[i := project] ! j = map (\<lambda>q. if p_id q = p_id project then project else q) prev ! j"
    proof (cases "j = i")
      case True
      with i show ?thesis by simp
    next
      case False
      with assms(1) i j have "p_id (prev ! j) \<noteq> p_id project"
        by (metis distinct_conv_nth length_map nth_map)
      with False j show ?thesis by simp
    qed
  qed
  with i(3) show ?thesis by simp
qed

lemma deleteProject_distinct:
  "distinct (map p_id prev) \<Longrightarrow> distinct (map p_id (deleteProject i confirmed prev))"
  by (simp add: deleteProject_def distinct_map_filter)

lemma deleteProject_removes:
  "p_id ` set (deleteProject i True prev) = p_id ` set prev - {i}"
  by (auto simp: deleteProject_def)

lemma newItems_eq: "newItems prev js = filter (\<lambda>j. p_id j \<notin> p_id ` set prev) js"
  unfolding newItems_def by (rule filter_cong) (auto simp: list_ex_iff image_iff)

lemma import_distinct:
  assumes "distinct (map p_id prev)" and "distinct (map p_id js)"
  shows "distinct (map p_id (newItems prev js @ prev))"
  using assms unfolding newItems_eq by (auto simp: distinct_map_filter)

lemma collection_unique_ids_preserved:
  assumes "distinct (map p_id prev)"
  shows "distinct (map p_id (handleProjectSave project prev))"
    and "distinct (map p_id (deleteProject i confirmed prev))"
    and "JSON_parse text = Some (JArray js) \<Longrightarrow> distinct (map p_id js)
           \<Longrightarrow> distinct (map p_id (fst (handleGlobalImport JSON_parse (Some text) prev)))"
    and "JSON_parse text = Some JOther \<or> JSON_parse text = None
           \<Longrightarrow> fst (handleGlobalImport JSON_parse (Some text) prev) = prev"
    and "fst (handleGlobalImport JSON_parse None prev) = prev"
  using assms
  by (auto simp: handleProjectSave_distinct deleteProject_distinct import_distinct
      handleGlobalImport_def simp del: distinct_append map_append)

text \<open>
  C6. The ids of the saved projects are claimed to stay pairwise distinct under saving,
  importing and deleting. Saving and deleting keep them distinct
  (\<open>collection_unique_ids_preserved\<close>), and so does importing an array whose own ids are
  distinct. But the import filters the array only against the ids already in the
  collection, not against the array itself: importing, into the empty collection, an array
  holding two projects with the id \<open>proj-1\<close> leaves both in the collection.
\<close>

theorem import_repeated_id:
  "fst (handleGlobalImport
          (\<lambda>text. Some (JArray [sample_project ''proj-1'' ''t1'', sample_project ''proj-1'' ''t2'']))
          (Some ''backup.json'') [])
     = [sample_project ''proj-1'' ''t1'', sample_project ''proj-1'' ''t2'']
   \<and> \<not> distinct (map p_id (fst (handleGlobalImport
          (\<lambda>text. Some (JArray [sample_project ''proj-1'' ''t1'', sample_project ''proj-1'' ''t2'']))
          (Some ''backup.json'') [])))"
  by (simp add: handleGlobalImport_def newItems_def sample_project_def)

text \<open>
  C7. Import merges by id. When the file parses to an array of projects, the collection
  becomes the imported projects whose ids were not present, in file order, followed by
  the previous collection, which is unchanged. When the file parses to a value that is not
  an array, the collection is unchanged and the handler alerts that the format is invalid.
  The example of the specification is evaluated after it: importing one new and one
  already-present id adds only the new one.
\<close>

theorem handleGlobalImport_merges:
  "(\<forall>js. JSON_parse text = Some (JArray js) \<longrightarrow>
      fst (handleGlobalImport JSON_parse (Some text) prev)
        = filter (\<lambda>j. p_id j \<notin> p_id ` set prev) js @ prev) \<and>
   (\<forall>j. JSON_parse text = Some j \<and> \<not> isArray j \<longrightarrow>
      handleGlobalImport JSON_parse (Some text) prev
        = (prev, Some ''Invalid JSON format. Expected an array of projects.''))"
  by (auto simp: handleGlobalImport_def newItems_eq isArray_def split: json.splits)

theorem handleGlobalImport_merges_witness:
  "fst (handleGlobalImport
          (\<lambda>text. Some (JArray [sample_project ''proj-2'' ''new'', sample_project ''proj-1'' ''other'']))
          (Some ''backup.json'') [sample_project ''proj-1'' ''old''])
     = [sample_project ''proj-2'' ''new'', sample_project ''proj-1'' ''old'']
   \<and> handleGlobalImport (\<lambda>text. Some JOther) (Some ''{}'') [sample_project ''proj-1'' ''old'']
     = ([sample_project ''proj-1'' ''old''],
        Some ''Invalid JSON format. Expected an array of projects.'')"
  using
    handleGlobalImport_merges [of
      "\<lambda>text. Some (JArray [sample_project ''proj-2'' ''new'', sample_project ''proj-1'' ''other''])"
      "''backup.json''" "[sample_project ''proj-1'' ''old'']"]
    handleGlobalImport_merges [of "\<lambda>text. Some JOther" "''{}''" "[sample_project ''proj-1'' ''old'']"]
  by (simp add: sample_project_def isArray_def)

lemma syncStorage_overwrites:
  "syncStorage JSON_stringify ps (syncStorage JSON_stringify qs ls)
     = syncStorage JSON_stringify ps ls"
  by (simp add: syncStorage_def)

lemma initSavedProjects_fresh: "initSavedProjects JSON_parse Map.empty = Inr (JArray [])"
  by (simp add: initSavedProjects_def)




section \<open>Properties of the detail view\<close>

lemma show_nat_42: "show_nat 42 = ''42''"
  by code_simp

text \<open>
  C1. As stated: generation alone never adds a project to the saved collection or
  modifies one; only the explicit save does. \<open>handleGenerate\<close> ends its successful path
  with \<open>onSave(project)\<close>, the same call \<open>handleLocalSave\<close> makes: generating content for
  a news item with an empty collection leaves one saved project.
\<close>

theorem handleGenerate_saves_counterexample:
  "snd (handleGenerate (\<lambda>n. Inr sample_content) (\<lambda>qs. Inr [])
          \<lparr>now = 42, toISOString = ''2024-05-01T10:00:00.000Z''\<rparr>
          (news_item ''news-1-0'' ''A'') None (initial_detail, []))
     = [\<lparr>p_id = ''proj-42'', newsItem = news_item ''news-1-0'' ''A'',
         generatedContent = Some sample_content, savedAt = ''2024-05-01T10:00:00.000Z'',
         groundingImages = []\<rparr>]
   \<and> snd (handleGenerate (\<lambda>n. Inr sample_content) (\<lambda>qs. Inr [])
          \<lparr>now = 42, toISOString = ''2024-05-01T10:00:00.000Z''\<rparr>
          (news_item ''news-1-0'' ''A'') None (initial_detail, [])) \<noteq> []"
  by (simp add: handleGenerate_def handleProjectSave_def project_id_def show_nat_42
      sample_content_def)

text \<open>
  C1, amended. A saved project is created or updated by the explicit save action and by
  every successful content-kit generation, which saves the generated project through the
  same save operation. A generation that fails (the content call or the image search
  throws) leaves the collection unchanged, and so does an explicit save while no content
  has been generated.
\<close>

theorem handleGenerate_saves:
  "(\<forall>err. generateContentKit item = Inl err \<longrightarrow>
      snd (handleGenerate generateContentKit searchImages clk item existingProject s) = snd s) \<and>
   (\<forall>generated err. generateContentKit item = Inr generated \<and> imageQueries generated \<noteq> [] \<and>
      searchImages (imageQueries generated) = Inl err \<longrightarrow>
      snd (handleGenerate generateContentKit searchImages clk item existingProject s) = snd s) \<and>
   (\<forall>generated imgs. generateContentKit item = Inr generated \<and>
      (if imageQueries generated \<noteq> [] then searchImages (imageQueries generated) else Inr [])
        = Inr imgs \<longrightarrow>
      snd (handleGenerate generateContentKit searchImages clk item existingProject s)
        = handleProjectSave
            \<lparr>p_id = project_id existingProject clk, newsItem = item,
             generatedContent = Some generated, savedAt = toISOString clk,
             groundingImages = imgs\<rparr> (snd s)) \<and>
   (d_content (fst s) = None \<longrightarrow> handleLocalSave clk item existingProject s = s) \<and>
   (\<forall>content. d_content (fst s) = Some content \<longrightarrow>
      snd (handleLocalSave clk item existingProject s)
        = handleProjectSave
            \<lparr>p_id = project_id existingProject clk, newsItem = item,
             generatedContent = Some content, savedAt = toISOString clk,
             groundingImages = d_groundingImages (fst s)\<rparr> (snd s))"
  by (auto simp: handleGenerate_def handleLocalSave_def Let_def split: sum.splits)


theorem handleGenerate_saves_witness:
  "snd (handleGenerate (\<lambda>n. Inl (Error ''boom'')) (\<lambda>qs. Inr [])
          \<lparr>now = 42, toISOString = ''2024-05-01T10:00:00.000Z''\<rparr>
          (news_item ''news-1-0'' ''A'') None (initial_detail, [sample_project ''proj-1'' ''t'']))
     = [sample_project ''proj-1'' ''t'']
   \<and> snd (handleGenerate (\<lambda>n. Inr sample_content) (\<lambda>qs. Inl (Error ''boom''))
          \<lparr>now = 42, toISOString = ''2024-05-01T10:00:00.000Z''\<rparr>
          (news_item ''news-1-0'' ''A'') None (initial_detail, [sample_project ''proj-1'' ''t'']))
     = [sample_project ''proj-1'' ''t'']
   \<and> snd (handleGenerate (\<lambda>n. Inr sample_content) (\<lambda>qs. Inr [])
          \<lparr>now = 42, toISOString = ''2024-05-01T10:00:00.000Z''\<rparr>
          (news_item ''news-1-0'' ''A'') None (initial_detail, [sample_project ''proj-1'' ''t'']))
     = [\<lparr>p_id = ''proj-42'', newsItem = news_item ''news-1-0'' ''A'',
         generatedContent = Some sample_content, savedAt = ''2024-05-01T10:00:00.000Z'',
         groundingImages = []\<rparr>,
        sample_project ''proj-1'' ''t'']
   \<and> handleLocalSave \<lparr>now = 42, toISOString = ''2024-05-01T10:00:00.000Z''\<rparr>
          (news_item ''news-1-0'' ''A'') None (initial_detail, [sample_project ''proj-1'' ''t''])
     = (initial_detail, [sample_project ''proj-1'' ''t''])
   \<and> snd (handleLocalSave \<lparr>now = 42, toISOString = ''2024-05-01T10:00:00.000Z''\<rparr>
          (news_item ''news-1-0'' ''A'') (Some (sample_project ''proj-1'' ''t''))
          (initial_detail\<lparr>d_content := Some sample_content\<rparr>, [sample_project ''proj-1'' ''t'']))
     = [\<lparr>p_id = ''proj-1'', newsItem = news_item ''news-1-0'' ''A'',
         generatedContent = Some sample_content, savedAt = ''2024-05-01T10:00:00.000Z'',
         groundingImages = []\<rparr>]"
  using
    handleGenerate_saves [of "\<lambda>n. Inl (Error ''boom'')" "news_item ''news-1-0'' ''A''"
      "\<lambda>qs. Inr []" "\<lparr>now = 42, toISOString = ''2024-05-01T10:00:00.000Z''\<rparr>" None
      "(initial_detail, [sample_project ''proj-1'' ''t''])"]
    handleGenerate_saves [of "\<lambda>n. Inr sample_content" "news_item ''news-1-0'' ''A''"
      "\<lambda>qs. Inl (Error ''boom'')" "\<lparr>now = 42, toISOString = ''2024-05-01T10:00:00.000Z''\<rparr>" None
      "(initial_detail, [sample_project ''proj-1'' ''t''])"]
    handleGenerate_saves [of "\<lambda>n. Inr sample_content" "news_item ''news-1-0'' ''A''"
      "\<lambda>qs. Inr []" "\<lparr>now = 42, toISOString = ''2024-05-01T10:00:00.000Z''\<rparr>" None
      "(initial_detail, [sample_project ''proj-1'' ''t''])"]
    handleGenerate_saves [of "\<lambda>n. Inr sample_content" "news_item ''news-1-0'' ''A''"
      "\<lambda>qs. Inr []" "\<lparr>now = 42, toISOString = ''2024-05-01T10:00:00.000Z''\<rparr>"
      "Some (sample_project ''proj-1'' ''t'')"
      "(initial_detail\<lparr>d_content := Some sample_content\<rparr>, [sample_project ''proj-1'' ''t''])"]
  by (simp add: handleProjectSave_def project_id_def show_nat_42 sample_content_def
      sample_project_def initial_detail_def)

end
